theory Spec2Isabelle
  imports Complex_Main "HOL-Library.Multiset" "HOL-Library.Product_Lexorder"
begin

section \<open>JavaScript values\<close>

text \<open>
  The front end is TypeScript. Its declared types are erased at run time, so the
  values the code handles are JavaScript values: what \<open>response.json()\<close> resolves
  with, what a property read returns, what \<open>a || b\<close> picks, what \<open>new Error(v)\<close>
  keeps of \<open>v\<close>.

  A JavaScript number is an IEEE double. Only the test for zero is used below, so a finite
  double is modelled by the real number it denotes (\<open>-0\<close> and \<open>0\<close> are both
  \<open>Finite 0\<close>); the infinities and \<open>NaN\<close> are values of their own.
\<close>

datatype js_number = Finite real | PosInfinity | NegInfinity | NaN

text \<open>A value as \<open>JSON.parse\<close> builds it; an object is the list of its members.\<close>

datatype json =
    JNull
  | JBool bool
  | JNum js_number
  | JStr string
  | JArr "json list"
  | JObj "(string \<times> json) list"

text \<open>ToBoolean: \<open>null\<close>, \<open>false\<close>, \<open>0\<close>, \<open>NaN\<close> and \<open>""\<close> are falsy.\<close>

fun js_truthy :: "json \<Rightarrow> bool" where
  "js_truthy JNull = False"
| "js_truthy (JBool b) = b"
| "js_truthy (JNum (Finite x)) = (x \<noteq> 0)"
| "js_truthy (JNum NaN) = False"
| "js_truthy (JNum _) = True"
| "js_truthy (JStr s) = (s \<noteq> [])"
| "js_truthy (JArr _) = True"
| "js_truthy (JObj _) = True"

text \<open>
  The own property \<open>key\<close> of an object given by its members in source order: the last
  member written wins when a key is repeated; \<open>None\<close> when there is none.
\<close>

definition own_property :: "(string \<times> 'a) list \<Rightarrow> string \<Rightarrow> 'a option" where
  "own_property props key = map_of (rev props) key"

text \<open>
  What the code below can throw: \<open>Error m\<close> is an \<open>Error\<close> whose \<open>message\<close> is the
  string \<open>m\<close>, \<open>TypeError\<close> the error of the run time (a property read on \<open>null\<close>, a
  value with no string conversion), \<open>JsonRejection\<close> the rejection of
  \<open>response.json()\<close>.
\<close>

datatype js_error = Error string | TypeError | JsonRejection

text \<open>
  \<open>String(v)\<close>, the conversion \<open>new Error(v)\<close> applies to its argument. A string is
  itself; an array is its elements joined by commas, \<open>null\<close> elements giving the empty
  string; a plain object is \<open>[object Object]\<close>, unless a member named \<open>toString\<close>
  hides the inherited method: a JSON value is never callable, and the inherited
  \<open>valueOf\<close> returns the object itself, so the conversion throws a \<open>TypeError\<close>. The
  decimal form of a number (Number::toString of the language) is the parameter \<open>ns\<close>.
\<close>

fun js_to_string :: "(js_number \<Rightarrow> string) \<Rightarrow> json \<Rightarrow> js_error + string"
  and js_join :: "(js_number \<Rightarrow> string) \<Rightarrow> json list \<Rightarrow> js_error + string" where
  "js_to_string ns JNull = Inr ''null''"
| "js_to_string ns (JBool b) = Inr (if b then ''true'' else ''false'')"
| "js_to_string ns (JNum n) = Inr (ns n)"
| "js_to_string ns (JStr s) = Inr s"
| "js_to_string ns (JArr xs) = js_join ns xs"
| "js_to_string ns (JObj props) =
     (if ''toString'' \<in> fst ` set props then Inl TypeError else Inr ''[object Object]'')"
| "js_join ns [] = Inr []"
| "js_join ns [x] = (if x = JNull then Inr [] else js_to_string ns x)"
| "js_join ns (x # y # ys) =
     (case (if x = JNull then Inr [] else js_to_string ns x) of
        Inl e \<Rightarrow> Inl e
      | Inr s \<Rightarrow>
          (case js_join ns (y # ys) of
             Inl e \<Rightarrow> Inl e
           | Inr t \<Rightarrow> Inr (s @ '','' @ t)))"


section \<open>AddContractModal: display names and API codes\<close>

text \<open>The \<open>contract_type\<close> codes the \<open>Contract\<close> interface declares.\<close>

definition contract_type_codes :: "string list" where
  "contract_type_codes = [''tos'', ''privacy'', ''sla'', ''msa'', ''dpa'', ''other'']"

definition contractTypes :: "string list" where
  "contractTypes =
     [''Terms of Service'', ''Privacy Policy'', ''Service Agreement'',
      ''Data Processing Agreement'', ''SLA'', ''Master Service Agreement'']"

definition contractTypeMap :: "(string \<times> string) list" where
  "contractTypeMap =
     [(''Terms of Service'', ''tos''),
      (''Privacy Policy'', ''privacy''),
      (''Service Agreement'', ''sla''),
      (''Data Processing Agreement'', ''dpa''),
      (''SLA'', ''sla''),
      (''Master Service Agreement'', ''msa'')]"

text \<open>
  What \<open>contractTypeMap[key]\<close> can be: a string of the map, a member that every plain
  object inherits from \<open>Object.prototype\<close> (a function, or the prototype itself for
  \<open>__proto__\<close>: not a string, and truthy), or \<open>undefined\<close>.
\<close>

datatype property_value = PString string | PInherited string | PUndefined

fun property_truthy :: "property_value \<Rightarrow> bool" where
  "property_truthy (PString s) = (s \<noteq> [])"
| "property_truthy (PInherited k) = True"
| "property_truthy PUndefined = False"

text \<open>The property names of \<open>Object.prototype\<close>.\<close>

definition object_prototype_keys :: "string list" where
  "object_prototype_keys =
     [''constructor'', ''__defineGetter__'', ''__defineSetter__'', ''hasOwnProperty'',
      ''__lookupGetter__'', ''__lookupSetter__'', ''isPrototypeOf'',
      ''propertyIsEnumerable'', ''toString'', ''valueOf'', ''__proto__'',
      ''toLocaleString'']"

text \<open>\<open>obj[key]\<close> on an object literal of strings: own property, else inherited member.\<close>

definition object_get :: "(string \<times> string) list \<Rightarrow> string \<Rightarrow> property_value" where
  "object_get props key =
     (case own_property props key of
        Some s \<Rightarrow> PString s
      | None \<Rightarrow> if key \<in> set object_prototype_keys then PInherited key else PUndefined)"

text \<open>
  Both forms render the same \<open>select\<close>: the placeholder option with the empty value, then
  one option per entry of \<open>contractTypes\<close>. \<open>setContractType\<close> is only ever called with
  the value of the chosen option (or with \<open>''\<close> by \<open>resetForm\<close>).
\<close>

definition contract_type_options :: "string list" where
  "contract_type_options = [] # contractTypes"

text \<open>\<open>const apiContractType = contractTypeMap[contractType] || 'other'\<close>\<close>

definition apiContractType :: "string \<Rightarrow> property_value" where
  "apiContractType contractType =
     (let v = object_get contractTypeMap contractType
      in if property_truthy v then v else PString ''other'')"

datatype step = Method | Manual | Upload

record modal_state =
  step :: step
  vendor :: string
  contractType :: string
  selectedFile :: "string option"
  url :: string

text \<open>
  The call \<open>handleSubmit\<close> makes on the API client, with its arguments in the order of
  the source: \<open>contractsApi.create({vendor, contract_type, source_url})\<close> and
  \<open>contractsApi.upload(file, vendor, contractType)\<close>.
\<close>

datatype api_call =
    ContractsCreate string property_value string
  | ContractsUpload string string property_value

fun call_contract_type :: "api_call \<Rightarrow> property_value" where
  "call_contract_type (ContractsCreate v ct u) = ct"
| "call_contract_type (ContractsUpload f v ct) = ct"

text \<open>
  The \<open>try\<close> block of \<open>handleSubmit\<close> up to the API call: \<open>Inl\<close> is the message of the
  error thrown before any call, \<open>Inr None\<close> is the path that calls nothing
  (\<open>step = 'method'\<close>).
\<close>

definition handleSubmit :: "modal_state \<Rightarrow> string + api_call option" where
  "handleSubmit st =
     (let apiCT = apiContractType (contractType st) in
      case step st of
        Manual \<Rightarrow> Inr (Some (ContractsCreate (vendor st) apiCT (url st)))
      | Upload \<Rightarrow>
          (case selectedFile st of
             None \<Rightarrow> Inl ''No file selected''
           | Some f \<Rightarrow> Inr (Some (ContractsUpload f (vendor st) apiCT)))
      | Method \<Rightarrow> Inr None)"


section \<open>Alerts page\<close>

text \<open>
  The status values the \<open>Alert\<close> interface declares
  (\<open>AlertStatus = Alert['status']\<close>).
\<close>

definition AlertStatus_values :: "string list" where
  "AlertStatus_values = [''pending'', ''sent'', ''acknowledged'', ''resolved'']"

text \<open>
  An alert as the page receives it from \<open>alertsApi.list\<close>. The value of \<open>status\<close>
  is whatever string the response holds.
\<close>

record alert =
  alert_id :: string
  change_id :: string
  alert_type :: string
  alert_status :: string
  created_at :: string
  sent_at :: "string option"

text \<open>
  \<open>filteredAlerts\<close>: no alerts while the query has no data, all of them for the type
  filter \<open>all\<close>, else those of the chosen type.
\<close>

definition filteredAlerts :: "alert list option \<Rightarrow> string \<Rightarrow> alert list" where
  "filteredAlerts alerts alertType =
     (case alerts of
        None \<Rightarrow> []
      | Some as \<Rightarrow> if alertType = ''all'' then as
                  else filter (\<lambda>a. alert_type a = alertType) as)"

record alert_stats =
  total :: nat
  pending :: nat
  sent :: nat
  failed :: nat

text \<open>\<open>alerts?.filter(a => a.status === s).length || 0\<close>\<close>

definition count_status :: "alert list option \<Rightarrow> string \<Rightarrow> nat" where
  "count_status alerts s =
     (case alerts of None \<Rightarrow> 0 | Some as \<Rightarrow> length (filter (\<lambda>a. alert_status a = s) as))"

definition stats :: "alert list option \<Rightarrow> alert_stats" where
  "stats alerts =
     \<lparr>total = (case alerts of None \<Rightarrow> 0 | Some as \<Rightarrow> length as),
      pending = count_status alerts ''pending'',
      sent = count_status alerts ''sent'',
      failed = count_status alerts ''failed''\<rparr>"

text \<open>The buttons rendered in the actions column of one alert.\<close>

datatype alert_button = MarkAsSent | MarkAsFailed | ViewDetails

definition alert_actions :: "alert \<Rightarrow> alert_button list" where
  "alert_actions a =
     (if alert_status a = ''pending'' then [MarkAsSent, MarkAsFailed] else []) @ [ViewDetails]"

text \<open>
  What a click does: \<open>UpdateStatus i s\<close> is the call \<open>alertsApi.updateStatus(i, s)\<close>
  (a \<open>PATCH\<close> of \<open>/api/alerts/i\<close> with the body \<open>{status: s}\<close>), \<open>RouterPush\<close> a
  navigation.
\<close>

datatype page_effect = UpdateStatus string string | RouterPush string

text \<open>
  \<open>handleStatusUpdate\<close> hands its arguments to the mutation, whose \<open>mutationFn\<close> calls
  \<open>alertsApi.updateStatus(id, newStatus as any)\<close>: the cast removes the type check.
\<close>

definition handleStatusUpdate :: "string \<Rightarrow> string \<Rightarrow> page_effect" where
  "handleStatusUpdate i newStatus = UpdateStatus i newStatus"

definition handleViewContract :: "string \<Rightarrow> page_effect" where
  "handleViewContract changeId = RouterPush ''/contracts''"

text \<open>
  The \<open>onClick\<close> of each button. The two status buttons are disabled while a status
  update is pending (\<open>updateStatusMutation.isPending\<close>), and a disabled button does
  nothing.
\<close>

fun on_click :: "bool \<Rightarrow> alert \<Rightarrow> alert_button \<Rightarrow> page_effect option" where
  "on_click isPending a MarkAsSent =
     (if isPending then None else Some (handleStatusUpdate (alert_id a) ''sent''))"
| "on_click isPending a MarkAsFailed =
     (if isPending then None else Some (handleStatusUpdate (alert_id a) ''failed''))"
| "on_click isPending a ViewDetails = Some (handleViewContract (change_id a))"


section \<open>API client: \<open>apiFetch\<close>\<close>

text \<open>
  The response \<open>fetch\<close> resolved with, as far as \<open>apiFetch\<close> reads it.
  \<open>resp_json\<close> is what \<open>response.json()\<close> resolves with, \<open>None\<close> when it rejects
  (the body is not parseable JSON).
\<close>

record response =
  resp_ok :: bool
  resp_status :: int
  statusText :: string
  resp_json :: "json option"

datatype fetch_result = ReturnsUndefined | ReturnsJson json

text \<open>
  \<open>error.detail\<close>: the read throws on \<open>null\<close>; an object gives its own member, and
  neither \<open>Object.prototype\<close> nor the prototype of an array, a string, a number or a
  boolean has a \<open>detail\<close>, so every other read gives \<open>undefined\<close> (\<open>None\<close>).
\<close>

fun read_detail :: "json \<Rightarrow> js_error + json option" where
  "read_detail JNull = Inl TypeError"
| "read_detail (JObj props) = Inr (own_property props ''detail'')"
| "read_detail _ = Inr None"

text \<open>\<open>error.detail || 'API request failed'\<close>\<close>

definition detail_or_default :: "json option \<Rightarrow> json" where
  "detail_or_default d =
     (case d of
        None \<Rightarrow> JStr ''API request failed''
      | Some v \<Rightarrow> if js_truthy v then v else JStr ''API request failed'')"

text \<open>
  \<open>apiFetch\<close> from the point where \<open>fetch\<close> has resolved with the response \<open>r\<close>:
  \<^verbatim>\<open>
  if (!response.ok) {
    const error = await response.json().catch(() => ({
      detail: response.statusText, status: response.status }))
    throw new Error(error.detail || 'API request failed')
  }
  if (response.status === 204) { return undefined as T }
  return response.json()
  \<close>
  \<open>new Error(v)\<close> keeps \<open>String(v)\<close> as its message, and throws when that conversion
  throws.
\<close>

definition apiFetch :: "(js_number \<Rightarrow> string) \<Rightarrow> response \<Rightarrow> js_error + fetch_result" where
  "apiFetch ns r =
     (if \<not> resp_ok r then
        (let error = (case resp_json r of
                        Some v \<Rightarrow> v
                      | None \<Rightarrow> JObj [(''detail'', JStr (statusText r)),
                                       (''status'', JNum (Finite (of_int (resp_status r))))])
         in case read_detail error of
              Inl e \<Rightarrow> Inl e
            | Inr d \<Rightarrow>
                (case js_to_string ns (detail_or_default d) of
                   Inl e \<Rightarrow> Inl e
                 | Inr m \<Rightarrow> Inl (Error m)))
      else if resp_status r = 204 then Inr ReturnsUndefined
      else (case resp_json r of
              None \<Rightarrow> Inl JsonRejection
            | Some v \<Rightarrow> Inr (ReturnsJson v)))"


section \<open>Drift Detector\<close>

text \<open>
  The Drift Detector (\<open>services/drift_detector.py\<close> in the project structure) is not
  among the sources; only the \<open>Clause\<close>, \<open>Fingerprint\<close> and \<open>Change\<close>
  declarations of the API client and its caller \<open>versionsApi.compare\<close> are. Every
  definition of this section is therefore modelled from sections 3 and 4.4 of the spec.
  What the spec leaves open is a parameter: the similarity of two clauses with different
  text (a weighted combination whose weights it does not give) and the two thresholds.
\<close>

text \<open>
  Modelled from the spec: the \<open>Clause\<close> of section 3, which the missing Clause Segmenter
  produces. \<open>clause_number\<close> is the ordinal within the version, not a content identity.
\<close>

record clause =
  clause_number :: nat
  category :: "string option"
  heading :: "string option"
  clause_text :: string
  position_start :: nat
  position_end :: nat

text \<open>
  Modelled from the spec: the \<open>Fingerprint\<close> of section 3, which the missing Fingerprint
  Engine derives from the clause text.
\<close>

record fingerprint =
  text_hash :: string
  simhash :: "bool list"
  keyword_weights :: "(string \<times> real) list"

text \<open>Modelled from the spec: a clause with its fingerprint, the detector's input.\<close>

type_synonym fclause = "clause \<times> fingerprint"

text \<open>
  Modelled from the spec: the four risk bands of section 4.5, which are also the four
  values the declared \<open>Change.risk_level\<close> can take.
\<close>

datatype risk_level = Low | Medium | High | Critical

text \<open>
  Modelled from the spec: the five change types of section 4.4 and the \<open>Change\<close> record of
  section 3 as the missing detector emits it. The version pair is the one the two
  sequences belong to. The risk fields and the explanation are optional: the detector
  leaves them empty and the Risk Classifier fills them.
\<close>

datatype change_type = Added | Removed | Modified | Rewritten | Unchanged

record change =
  from_clause :: "clause option"
  to_clause :: "clause option"
  change_type :: change_type
  similarity_score :: real
  change_risk_level :: "risk_level option"
  risk_score :: "nat option"
  explanation :: "string option"

text \<open>
  Modelled from the spec: what section 9 calls tunable configuration of the missing
  detector. \<open>sim\<close> is the weighted combination of keyword cosine similarity and simhash
  Hamming proximity for two clauses.
\<close>

record detector_config =
  sim :: "fclause \<Rightarrow> fclause \<Rightarrow> real"
  match_threshold :: real
  modified_threshold :: real

text \<open>
  Modelled from the spec: step 1 of the missing detector. Equal text hashes give the
  similarity 1.0 without any similarity math.
\<close>

definition same_text :: "fclause \<Rightarrow> fclause \<Rightarrow> bool" where
  "same_text a b = (text_hash (snd a) = text_hash (snd b))"

text \<open>Modelled from the spec: the similarity score of a pair (step 1 of the missing detector).\<close>

definition pair_score :: "detector_config \<Rightarrow> fclause \<Rightarrow> fclause \<Rightarrow> real" where
  "pair_score cfg a b = (if same_text a b then 1 else sim cfg a b)"

text \<open>
  Modelled from the spec: step 1 of the missing detector skips pairs with disjoint
  vocabularies.
\<close>

definition disjoint_vocabulary :: "fclause \<Rightarrow> fclause \<Rightarrow> bool" where
  "disjoint_vocabulary a b =
     (set (map fst (keyword_weights (snd a))) \<inter> set (map fst (keyword_weights (snd b))) = {})"

text \<open>
  Modelled from the spec: step 2 of the missing detector accepts a match only above the
  match threshold; identical text needs no similarity math.
\<close>

definition is_candidate :: "detector_config \<Rightarrow> fclause \<Rightarrow> fclause \<Rightarrow> bool" where
  "is_candidate cfg a b =
     (same_text a b
      \<or> (\<not> disjoint_vocabulary a b \<and> match_threshold cfg < pair_score cfg a b))"

text \<open>
  Modelled from the spec: the candidate pairs of the missing detector, as positions in the
  two sequences.
\<close>

definition candidates :: "detector_config \<Rightarrow> fclause list \<Rightarrow> fclause list \<Rightarrow> (nat \<times> nat) list" where
  "candidates cfg from to =
     concat (map (\<lambda>i. map (\<lambda>j. (i, j))
                          (filter (\<lambda>j. is_candidate cfg (from ! i) (to ! j)) [0..<length to]))
                 [0..<length from])"

text \<open>
  Modelled from the spec: \<open>|clause_number_from - clause_number_to|\<close>, the tie-break of
  step 2 of the missing detector.
\<close>

definition number_distance :: "fclause \<Rightarrow> fclause \<Rightarrow> nat" where
  "number_distance a b =
     (if clause_number (fst a) \<le> clause_number (fst b)
      then clause_number (fst b) - clause_number (fst a)
      else clause_number (fst a) - clause_number (fst b))"

text \<open>
  Modelled from the spec: step 2 of the missing detector orders the candidates by
  descending similarity, among equal similarities the smaller distance of clause numbers
  first. The sort is stable.
\<close>

definition ranked :: "detector_config \<Rightarrow> fclause list \<Rightarrow> fclause list \<Rightarrow> (nat \<times> nat) list" where
  "ranked cfg from to =
     sort_key (\<lambda>(i, j). (- pair_score cfg (from ! i) (to ! j), number_distance (from ! i) (to ! j)))
       (candidates cfg from to)"

text \<open>
  Modelled from the spec: the greedy pass of step 2 of the missing detector. A pair is
  accepted when neither of its clauses is matched already, so each clause is used at most
  once on each side.
\<close>

fun greedy_match :: "(nat \<times> nat) list \<Rightarrow> (nat \<times> nat) list \<Rightarrow> (nat \<times> nat) list" where
  "greedy_match [] acc = acc"
| "greedy_match ((i, j) # ps) acc =
     (if i \<in> fst ` set acc \<or> j \<in> snd ` set acc then greedy_match ps acc
      else greedy_match ps (acc @ [(i, j)]))"

text \<open>
  Modelled from the spec: step 3 of the missing detector, the similarity band of an
  accepted match.
\<close>

definition classify_match :: "detector_config \<Rightarrow> fclause \<Rightarrow> fclause \<Rightarrow> change_type" where
  "classify_match cfg a b =
     (if same_text a b then Unchanged
      else if modified_threshold cfg \<le> pair_score cfg a b then Modified
      else Rewritten)"

text \<open>Modelled from the spec: the change the missing detector emits for an accepted match.\<close>

definition matched_change :: "detector_config \<Rightarrow> fclause \<Rightarrow> fclause \<Rightarrow> change" where
  "matched_change cfg a b =
     \<lparr>from_clause = Some (fst a), to_clause = Some (fst b),
      change_type = classify_match cfg a b, similarity_score = pair_score cfg a b,
      change_risk_level = None, risk_score = None, explanation = None\<rparr>"

text \<open>
  Modelled from the spec: step 4 of the missing detector, an unmatched clause of \<open>from\<close>
  is removed.
\<close>

definition removed_change :: "fclause \<Rightarrow> change" where
  "removed_change a =
     \<lparr>from_clause = Some (fst a), to_clause = None, change_type = Removed,
      similarity_score = 0, change_risk_level = None, risk_score = None, explanation = None\<rparr>"

text \<open>
  Modelled from the spec: step 4 of the missing detector, an unmatched clause of \<open>to\<close> is
  added.
\<close>

definition added_change :: "fclause \<Rightarrow> change" where
  "added_change b =
     \<lparr>from_clause = None, to_clause = Some (fst b), change_type = Added,
      similarity_score = 0, change_risk_level = None, risk_score = None, explanation = None\<rparr>"

text \<open>
  Modelled from the spec: the missing Drift Detector of section 4.4, from two clause
  sequences with their fingerprints to the list of changes: the accepted matches in the
  order of their acceptance, then the removed clauses, then the added ones.
\<close>

definition detect :: "detector_config \<Rightarrow> fclause list \<Rightarrow> fclause list \<Rightarrow> change list" where
  "detect cfg from to =
     (let m = greedy_match (ranked cfg from to) []
      in map (\<lambda>(i, j). matched_change cfg (from ! i) (to ! j)) m
         @ map (\<lambda>i. removed_change (from ! i)) (filter (\<lambda>i. i \<notin> fst ` set m) [0..<length from])
         @ map (\<lambda>j. added_change (to ! j)) (filter (\<lambda>j. j \<notin> snd ` set m) [0..<length to]))"

text \<open>
  Modelled from the spec: the missing comparison of a version pair (stages 4 and 5 of
  section 2): the detector, then the Risk Classifier on every change that is not
  \<open>unchanged\<close>. The classifier with its explanation call is the parameter \<open>classify\<close>.
  An empty \<open>from\<close> sequence is the first-version baseline of section 4.4, which is not
  scored.
\<close>

definition compare_versions ::
  "detector_config \<Rightarrow> (change \<Rightarrow> change) \<Rightarrow> fclause list \<Rightarrow> fclause list \<Rightarrow> change list" where
  "compare_versions cfg classify from to =
     (if from = [] then detect cfg from to
      else map (\<lambda>c. if change_type c = Unchanged then c else classify c) (detect cfg from to))"


section \<open>Theorems: AddContractModal\<close>

lemma apiContractType_options:
  "map apiContractType contract_type_options =
     [PString ''other'', PString ''tos'', PString ''privacy'', PString ''sla'', PString ''dpa'',
      PString ''sla'', PString ''msa'']"
  by (simp add: contract_type_options_def contractTypes_def apiContractType_def
      object_get_def own_property_def contractTypeMap_def object_prototype_keys_def)

lemma apiContractType_fallback:
  assumes "ct \<notin> fst ` set contractTypeMap" and "ct \<notin> set object_prototype_keys"
  shows "apiContractType ct = PString ''other''"
proof -
  from assms(1) have "map_of (rev contractTypeMap) ct = None"
    by (simp add: map_of_eq_None_iff)
  with assms(2) show ?thesis
    by (simp add: apiContractType_def object_get_def own_property_def)
qed

lemma handleSubmit_contract_type:
  "handleSubmit st = Inr (Some c) \<Longrightarrow> call_contract_type c = apiContractType (contractType st)"
  by (auto simp: handleSubmit_def Let_def split: step.splits option.splits)

lemma apiContractType_sla:
  "apiContractType ''Service Agreement'' = PString ''sla''"
  "apiContractType ''SLA'' = PString ''sla''"
  by (simp_all add: apiContractType_def object_get_def own_property_def contractTypeMap_def)

text \<open>
  C10. \<open>handleSubmit\<close> passes \<open>contractTypeMap[contractType] || 'other'\<close> as the
  \<open>contract_type\<close> of its API call, on the manual path (\<open>contractsApi.create\<close>) and on
  the upload path (\<open>contractsApi.upload\<close>) alike. For every value the contract-type
  \<open>select\<close> of AddContractModal can hold, the value passed is one of the six declared
  codes \<open>tos, privacy, sla, msa, dpa, other\<close>: the placeholder gives \<open>other\<close>, the six
  display names give \<open>tos, privacy, sla, dpa, sla, msa\<close> in the order of the list. A
  name that is no key of \<open>contractTypeMap\<close> (and no member inherited from
  \<open>Object.prototype\<close>, which no option of the \<open>select\<close> is) is submitted as \<open>other\<close>;
  the two distinct display names \<open>Service Agreement\<close> and \<open>SLA\<close> are both submitted
  as \<open>sla\<close>.
\<close>

theorem contract_type_submitted_is_declared_code:
  "(\<forall>st. step st = Manual
       \<longrightarrow> handleSubmit st
           = Inr (Some (ContractsCreate (vendor st) (apiContractType (contractType st)) (url st))))
   \<and> (\<forall>st f. step st = Upload \<and> selectedFile st = Some f
       \<longrightarrow> handleSubmit st
           = Inr (Some (ContractsUpload f (vendor st) (apiContractType (contractType st)))))
   \<and> (\<forall>st c. handleSubmit st = Inr (Some c)
       \<longrightarrow> call_contract_type c = apiContractType (contractType st))
   \<and> (\<forall>st c. contractType st \<in> set contract_type_options \<and> handleSubmit st = Inr (Some c)
       \<longrightarrow> (\<exists>code \<in> set contract_type_codes. call_contract_type c = PString code))
   \<and> (\<forall>st c. contractType st \<notin> fst ` set contractTypeMap
         \<and> contractType st \<notin> set object_prototype_keys \<and> handleSubmit st = Inr (Some c)
       \<longrightarrow> call_contract_type c = PString ''other'')
   \<and> (\<forall>st c. contractType st = ''Service Agreement'' \<and> handleSubmit st = Inr (Some c)
       \<longrightarrow> call_contract_type c = PString ''sla'')
   \<and> (\<forall>st c. contractType st = ''SLA'' \<and> handleSubmit st = Inr (Some c)
       \<longrightarrow> call_contract_type c = PString ''sla'')
   \<and> ''Service Agreement'' \<noteq> ''SLA''
   \<and> map apiContractType contract_type_options
       = [PString ''other'', PString ''tos'', PString ''privacy'', PString ''sla'',
          PString ''dpa'', PString ''sla'', PString ''msa'']
   \<and> (\<forall>st. step st = Upload \<and> selectedFile st = None
       \<longrightarrow> handleSubmit st = Inl ''No file selected'')
   \<and> (\<forall>st. step st = Method \<longrightarrow> handleSubmit st = Inr None)"
proof (intro conjI allI impI)
  fix st :: modal_state
  assume "step st = Manual"
  then show "handleSubmit st
      = Inr (Some (ContractsCreate (vendor st) (apiContractType (contractType st)) (url st)))"
    by (simp add: handleSubmit_def)
next
  fix st :: modal_state and f
  assume "step st = Upload \<and> selectedFile st = Some f"
  then show "handleSubmit st
      = Inr (Some (ContractsUpload f (vendor st) (apiContractType (contractType st))))"
    by (simp add: handleSubmit_def)
next
  fix st c
  assume "handleSubmit st = Inr (Some c)"
  then show "call_contract_type c = apiContractType (contractType st)"
    by (rule handleSubmit_contract_type)
next
  fix st :: modal_state and c
  assume h: "contractType st \<in> set contract_type_options \<and> handleSubmit st = Inr (Some c)"
  then have "apiContractType (contractType st) \<in> set (map apiContractType contract_type_options)"
    by simp
  then have "\<exists>code \<in> set contract_type_codes. apiContractType (contractType st) = PString code"
    unfolding apiContractType_options by (auto simp: contract_type_codes_def)
  moreover from h have "call_contract_type c = apiContractType (contractType st)"
    by (simp add: handleSubmit_contract_type)
  ultimately show "\<exists>code \<in> set contract_type_codes. call_contract_type c = PString code"
    by simp
next
  fix st :: modal_state and c
  assume h: "contractType st \<notin> fst ` set contractTypeMap
      \<and> contractType st \<notin> set object_prototype_keys \<and> handleSubmit st = Inr (Some c)"
  then have "apiContractType (contractType st) = PString ''other''"
    by (simp add: apiContractType_fallback)
  moreover from h have "call_contract_type c = apiContractType (contractType st)"
    by (simp add: handleSubmit_contract_type)
  ultimately show "call_contract_type c = PString ''other''" by simp
next
  fix st :: modal_state and c
  assume h: "contractType st = ''Service Agreement'' \<and> handleSubmit st = Inr (Some c)"
  then have "call_contract_type c = apiContractType ''Service Agreement''"
    using handleSubmit_contract_type [of st c] by simp
  then show "call_contract_type c = PString ''sla''"
    by (simp only: apiContractType_sla)
next
  fix st :: modal_state and c
  assume h: "contractType st = ''SLA'' \<and> handleSubmit st = Inr (Some c)"
  then have "call_contract_type c = apiContractType ''SLA''"
    using handleSubmit_contract_type [of st c] by simp
  then show "call_contract_type c = PString ''sla''"
    by (simp only: apiContractType_sla)
next
  show "''Service Agreement'' \<noteq> ''SLA''" by simp
next
  show "map apiContractType contract_type_options
       = [PString ''other'', PString ''tos'', PString ''privacy'', PString ''sla'',
          PString ''dpa'', PString ''sla'', PString ''msa'']"
    by (rule apiContractType_options)
next
  fix st :: modal_state
  assume "step st = Upload \<and> selectedFile st = None"
  then show "handleSubmit st = Inl ''No file selected''"
    by (simp add: handleSubmit_def)
next
  fix st :: modal_state
  assume "step st = Method"
  then show "handleSubmit st = Inr None"
    by (simp add: handleSubmit_def)
qed

text \<open>
  The theorem at five states of the form: the manual path with \<open>Service Agreement\<close>
  chosen, the upload path with \<open>SLA\<close> chosen and a file selected, the manual path with
  the placeholder (which is no key of the map), the upload path with no file, and the
  method step.
\<close>

theorem contract_type_submitted_is_declared_code_witness:
  "handleSubmit \<lparr>step = Manual, vendor = ''Stripe'', contractType = ''Service Agreement'', selectedFile = None, url = ''https://stripe.com/legal''\<rparr>
     = Inr (Some (ContractsCreate ''Stripe'' (PString ''sla'') ''https://stripe.com/legal''))
   \<and> handleSubmit \<lparr>step = Upload, vendor = ''Stripe'', contractType = ''SLA'', selectedFile = Some ''sla.pdf'', url = []\<rparr>
     = Inr (Some (ContractsUpload ''sla.pdf'' ''Stripe'' (PString ''sla'')))
   \<and> handleSubmit \<lparr>step = Manual, vendor = ''Stripe'', contractType = [], selectedFile = None, url = ''https://stripe.com/legal''\<rparr>
     = Inr (Some (ContractsCreate ''Stripe'' (PString ''other'') ''https://stripe.com/legal''))
   \<and> handleSubmit \<lparr>step = Upload, vendor = ''Stripe'', contractType = ''Privacy Policy'', selectedFile = None, url = []\<rparr>
     = Inl ''No file selected''
   \<and> handleSubmit \<lparr>step = Method, vendor = [], contractType = [], selectedFile = None, url = []\<rparr>
     = Inr None
   \<and> ''Service Agreement'' \<in> set contract_type_options
   \<and> ''SLA'' \<in> set contract_type_options
   \<and> [] \<notin> fst ` set contractTypeMap
   \<and> [] \<notin> set object_prototype_keys
   \<and> (\<exists>code \<in> set contract_type_codes.
         call_contract_type (ContractsCreate ''Stripe'' (PString ''sla'') ''https://stripe.com/legal'') = PString code)"
proof -
  note main = contract_type_submitted_is_declared_code
  let ?s1 = "\<lparr>step = Manual, vendor = ''Stripe'', contractType = ''Service Agreement'', selectedFile = None, url = ''https://stripe.com/legal''\<rparr>"
  let ?s2 = "\<lparr>step = Upload, vendor = ''Stripe'', contractType = ''SLA'', selectedFile = Some ''sla.pdf'', url = []\<rparr>"
  let ?s3 = "\<lparr>step = Manual, vendor = ''Stripe'', contractType = [], selectedFile = None, url = ''https://stripe.com/legal''\<rparr>"
  have o1: "contractType ?s1 \<in> set contract_type_options"
    and o2: "contractType ?s2 \<in> set contract_type_options"
    by (simp_all add: contract_type_options_def contractTypes_def)
  have k3: "contractType ?s3 \<notin> fst ` set contractTypeMap"
    by (simp add: contractTypeMap_def)
  have p3: "contractType ?s3 \<notin> set object_prototype_keys"
    by (simp add: object_prototype_keys_def)
  have m1: "step ?s1 = Manual" and m3: "step ?s3 = Manual" by simp_all
  have u2: "step ?s2 = Upload \<and> selectedFile ?s2 = Some ''sla.pdf''" by simp
  note manual = main [THEN conjunct1, rule_format]
  note upload = main [THEN conjunct2, THEN conjunct1, rule_format]
  note declared = main [THEN conjunct2, THEN conjunct2, THEN conjunct2, THEN conjunct1,
    rule_format]
  note fallback = main [THEN conjunct2, THEN conjunct2, THEN conjunct2, THEN conjunct2,
    THEN conjunct1, rule_format]
  note agreement = main [THEN conjunct2, THEN conjunct2, THEN conjunct2, THEN conjunct2,
    THEN conjunct2, THEN conjunct1, rule_format]
  note sla = main [THEN conjunct2, THEN conjunct2, THEN conjunct2, THEN conjunct2,
    THEN conjunct2, THEN conjunct2, THEN conjunct1, rule_format]
  note no_file = main [THEN conjunct2, THEN conjunct2, THEN conjunct2, THEN conjunct2,
    THEN conjunct2, THEN conjunct2, THEN conjunct2, THEN conjunct2, THEN conjunct2,
    THEN conjunct1, rule_format]
  note method_step = main [THEN conjunct2, THEN conjunct2, THEN conjunct2, THEN conjunct2,
    THEN conjunct2, THEN conjunct2, THEN conjunct2, THEN conjunct2, THEN conjunct2,
    THEN conjunct2, rule_format]
  have r4: "handleSubmit \<lparr>step = Upload, vendor = ''Stripe'', contractType = ''Privacy Policy'', selectedFile = None, url = []\<rparr> = Inl ''No file selected''"
    by (rule no_file) simp
  have r5: "handleSubmit \<lparr>step = Method, vendor = [], contractType = [], selectedFile = None, url = []\<rparr> = Inr None"
    by (rule method_step) simp
  have e1: "handleSubmit ?s1
      = Inr (Some (ContractsCreate (vendor ?s1) (apiContractType (contractType ?s1)) (url ?s1)))"
    by (rule manual) (rule m1)
  have e2: "handleSubmit ?s2
      = Inr (Some (ContractsUpload ''sla.pdf'' (vendor ?s2) (apiContractType (contractType ?s2))))"
    by (rule upload) (rule u2)
  have e3: "handleSubmit ?s3
      = Inr (Some (ContractsCreate (vendor ?s3) (apiContractType (contractType ?s3)) (url ?s3)))"
    by (rule manual) (rule m3)
  have t1: "call_contract_type (ContractsCreate (vendor ?s1) (apiContractType (contractType ?s1)) (url ?s1))
      = PString ''sla''"
    by (rule agreement [of ?s1]) (use e1 in simp)
  have t2: "call_contract_type (ContractsUpload ''sla.pdf'' (vendor ?s2) (apiContractType (contractType ?s2)))
      = PString ''sla''"
    by (rule sla [of ?s2]) (use e2 in simp)
  have t3: "call_contract_type (ContractsCreate (vendor ?s3) (apiContractType (contractType ?s3)) (url ?s3))
      = PString ''other''"
    by (rule fallback [of ?s3]) (use k3 p3 e3 in simp)
  have b1: "\<exists>code \<in> set contract_type_codes.
      call_contract_type (ContractsCreate (vendor ?s1) (apiContractType (contractType ?s1)) (url ?s1))
        = PString code"
    by (rule declared [of ?s1]) (use o1 e1 in simp)
  from t1 e1 have r1: "handleSubmit ?s1 = Inr (Some (ContractsCreate ''Stripe'' (PString ''sla'') ''https://stripe.com/legal''))" by simp
  from t2 e2 have r2: "handleSubmit ?s2 = Inr (Some (ContractsUpload ''sla.pdf'' ''Stripe'' (PString ''sla'')))" by simp
  from t3 e3 have r3: "handleSubmit ?s3 = Inr (Some (ContractsCreate ''Stripe'' (PString ''other'') ''https://stripe.com/legal''))" by simp
  from b1 t1 have b1': "\<exists>code \<in> set contract_type_codes.
      call_contract_type (ContractsCreate ''Stripe'' (PString ''sla'') ''https://stripe.com/legal'') = PString code" by simp
  show ?thesis
    using r1 r2 r3 r4 r5 o1 o2 k3 p3 b1' by simp
qed


section \<open>Theorems: alerts page\<close>

lemma count_status_declared:
  assumes "\<And>a. a \<in> set as \<Longrightarrow> alert_status a \<in> set AlertStatus_values"
  shows "count_status (Some as) ''failed'' = 0"
proof -
  have "filter (\<lambda>a. alert_status a = ''failed'') as = []"
    using assms by (fastforce simp: filter_empty_conv AlertStatus_values_def)
  then show ?thesis by (simp add: count_status_def)
qed

text \<open>
  C9. For every pending alert the page shows while no status update is in flight, the
  button \<open>Mark as Failed\<close> is rendered and its click calls \<open>updateStatus\<close> with the
  status \<open>failed\<close>, which is not one of the declared \<open>AlertStatus\<close> values
  \<open>pending, sent, acknowledged, resolved\<close>. The statistics count the statuses
  \<open>pending\<close>, \<open>sent\<close> and \<open>failed\<close>: \<open>stats.failed\<close> is the number of alerts whose
  status is the undeclared \<open>failed\<close>, and it is 0 whenever every status is a declared one.
\<close>

theorem mark_as_failed_sends_undeclared_status:
  "(\<forall>alerts alertType (a::alert).
       a \<in> set (filteredAlerts (Some alerts) alertType) \<and> alert_status a = ''pending''
       \<longrightarrow> MarkAsFailed \<in> set (alert_actions a)
           \<and> on_click False a MarkAsFailed = Some (UpdateStatus (alert_id a) ''failed''))
   \<and> ''failed'' \<notin> set AlertStatus_values
   \<and> (\<forall>alerts.
         pending (stats (Some alerts)) = length (filter (\<lambda>a. alert_status a = ''pending'') alerts)
       \<and> sent (stats (Some alerts)) = length (filter (\<lambda>a. alert_status a = ''sent'') alerts)
       \<and> failed (stats (Some alerts)) = length (filter (\<lambda>a. alert_status a = ''failed'') alerts))
   \<and> (\<forall>alerts::alert list. (\<forall>a \<in> set alerts. alert_status a \<in> set AlertStatus_values)
         \<longrightarrow> failed (stats (Some alerts)) = 0)"
proof (intro conjI allI impI)
  fix alerts alertType a
  assume "a \<in> set (filteredAlerts (Some alerts) alertType) \<and> alert_status a = ''pending''"
  then show "MarkAsFailed \<in> set (alert_actions a)"
    by (simp add: alert_actions_def)
next
  fix a
  show "on_click False a MarkAsFailed = Some (UpdateStatus (alert_id a) ''failed'')"
    by (simp add: handleStatusUpdate_def)
next
  show "''failed'' \<notin> set AlertStatus_values"
    by (simp add: AlertStatus_values_def)
next
  fix alerts
  show "pending (stats (Some alerts)) = length (filter (\<lambda>a. alert_status a = ''pending'') alerts)"
    by (simp add: stats_def count_status_def)
  show "sent (stats (Some alerts)) = length (filter (\<lambda>a. alert_status a = ''sent'') alerts)"
    by (simp add: stats_def count_status_def)
  show "failed (stats (Some alerts)) = length (filter (\<lambda>a. alert_status a = ''failed'') alerts)"
    by (simp add: stats_def count_status_def)
next
  fix alerts :: "alert list"
  assume "\<forall>a \<in> set alerts. alert_status a \<in> set AlertStatus_values"
  then have "count_status (Some alerts) ''failed'' = 0"
    by (intro count_status_declared) simp
  then show "failed (stats (Some alerts)) = 0"
    by (simp add: stats_def)
qed

theorem mark_as_failed_sends_undeclared_status_witness:
  "(\<exists>alerts alertType a b s.
       a \<in> set (filteredAlerts (Some alerts) alertType)
     \<and> b \<in> set (alert_actions a)
     \<and> on_click False a b = Some (UpdateStatus (alert_id a) s)
     \<and> s \<notin> set AlertStatus_values)
   \<and> failed (stats (Some [\<lparr>alert_id = ''a1'', change_id = ''c1'', alert_type = ''email'',
         alert_status = ''acknowledged'', created_at = ''2025-01-01'', sent_at = None\<rparr>])) = 0"
proof -
  let ?a = "\<lparr>alert_id = ''a1'', change_id = ''c1'', alert_type = ''email'',
         alert_status = ''pending'', created_at = ''2025-01-01'', sent_at = None\<rparr>"
  let ?b = "\<lparr>alert_id = ''a1'', change_id = ''c1'', alert_type = ''email'',
         alert_status = ''acknowledged'', created_at = ''2025-01-01'', sent_at = None\<rparr>"
  note main = mark_as_failed_sends_undeclared_status
  have h1: "?a \<in> set (filteredAlerts (Some [?a]) ''all'') \<and> alert_status ?a = ''pending''"
    by (simp add: filteredAlerts_def)
  have h2: "\<forall>a \<in> set [?b]. alert_status a \<in> set AlertStatus_values"
    by (simp add: AlertStatus_values_def)
  from main h1 have "MarkAsFailed \<in> set (alert_actions ?a)
      \<and> on_click False ?a MarkAsFailed = Some (UpdateStatus (alert_id ?a) ''failed'')"
    by blast
  moreover from main have "''failed'' \<notin> set AlertStatus_values" by blast
  ultimately have "\<exists>alerts alertType a b s.
       a \<in> set (filteredAlerts (Some alerts) alertType)
     \<and> b \<in> set (alert_actions a)
     \<and> on_click False a b = Some (UpdateStatus (alert_id a) s)
     \<and> s \<notin> set AlertStatus_values"
    using h1 by blast
  moreover from main h2 have "failed (stats (Some [?b])) = 0" by blast
  ultimately show ?thesis by blast
qed

section \<open>Theorems: \<open>apiFetch\<close>\<close>

lemma apiFetch_not_ok_throws: "\<not> resp_ok r \<Longrightarrow> \<exists>e. apiFetch ns r = Inl e"
  by (simp add: apiFetch_def Let_def split: sum.splits)

lemma apiFetch_not_ok_json:
  assumes "\<not> resp_ok r" and "resp_json r = Some v" and "read_detail v = Inr d"
  shows "apiFetch ns r =
    (case js_to_string ns (detail_or_default d) of Inl e \<Rightarrow> Inl e | Inr m \<Rightarrow> Inl (Error m))"
  using assms by (simp add: apiFetch_def)

lemma apiFetch_not_ok_unparseable:
  assumes "\<not> resp_ok r" and "resp_json r = None"
  shows "apiFetch ns r =
    Inl (Error (if statusText r = [] then ''API request failed'' else statusText r))"
  using assms by (simp add: apiFetch_def own_property_def detail_or_default_def)

text \<open>
  C8, as the code has it. When \<open>response.ok\<close> is false \<open>apiFetch\<close> throws and never
  returns a value. The message of the \<open>Error\<close> is the parsed body's \<open>detail\<close> when that
  is a non-empty string; it is \<open>'API request failed'\<close> when the parsed body is not
  \<open>null\<close> and its \<open>detail\<close> is missing or falsy; it is the \<open>statusText\<close> when the
  body is not parseable JSON, and \<open>'API request failed'\<close> when the \<open>statusText\<close> is
  empty too. When \<open>response.ok\<close> is true, status 204 returns \<open>undefined\<close>; any other
  status returns the parsed JSON body, and passes the rejection of \<open>response.json()\<close>
  on when the body is not parseable. (Of a \<open>detail\<close> that is truthy but not a string,
  and of a body that is the JSON \<open>null\<close>, the statement says only that \<open>apiFetch\<close>
  throws.)
\<close>

theorem apiFetch_outcomes:
  "(\<not> resp_ok r \<longrightarrow> (\<exists>e. apiFetch ns r = Inl e))
   \<and> (\<forall>v s. \<not> resp_ok r \<and> resp_json r = Some v \<and> read_detail v = Inr (Some (JStr s))
           \<and> s \<noteq> []
         \<longrightarrow> apiFetch ns r = Inl (Error s))
   \<and> (\<forall>v. \<not> resp_ok r \<and> resp_json r = Some v \<and> read_detail v = Inr None
         \<longrightarrow> apiFetch ns r = Inl (Error ''API request failed''))
   \<and> (\<forall>v d. \<not> resp_ok r \<and> resp_json r = Some v \<and> read_detail v = Inr (Some d)
           \<and> \<not> js_truthy d
         \<longrightarrow> apiFetch ns r = Inl (Error ''API request failed''))
   \<and> (\<not> resp_ok r \<and> resp_json r = None \<and> statusText r \<noteq> []
         \<longrightarrow> apiFetch ns r = Inl (Error (statusText r)))
   \<and> (\<not> resp_ok r \<and> resp_json r = None \<and> statusText r = []
         \<longrightarrow> apiFetch ns r = Inl (Error ''API request failed''))
   \<and> (resp_ok r \<and> resp_status r = 204 \<longrightarrow> apiFetch ns r = Inr ReturnsUndefined)
   \<and> (\<forall>v. resp_ok r \<and> resp_status r \<noteq> 204 \<and> resp_json r = Some v
         \<longrightarrow> apiFetch ns r = Inr (ReturnsJson v))
   \<and> (resp_ok r \<and> resp_status r \<noteq> 204 \<and> resp_json r = None
         \<longrightarrow> apiFetch ns r = Inl JsonRejection)"
proof (intro conjI allI impI)
  assume "\<not> resp_ok r"
  then show "\<exists>e. apiFetch ns r = Inl e" by (rule apiFetch_not_ok_throws)
next
  fix v s
  assume "\<not> resp_ok r \<and> resp_json r = Some v \<and> read_detail v = Inr (Some (JStr s)) \<and> s \<noteq> []"
  then show "apiFetch ns r = Inl (Error s)"
    using apiFetch_not_ok_json [of r v "Some (JStr s)" ns]
    by (simp add: detail_or_default_def)
next
  fix v
  assume "\<not> resp_ok r \<and> resp_json r = Some v \<and> read_detail v = Inr None"
  then show "apiFetch ns r = Inl (Error ''API request failed'')"
    using apiFetch_not_ok_json [of r v None ns]
    by (simp add: detail_or_default_def)
next
  fix v d
  assume "\<not> resp_ok r \<and> resp_json r = Some v \<and> read_detail v = Inr (Some d) \<and> \<not> js_truthy d"
  then show "apiFetch ns r = Inl (Error ''API request failed'')"
    using apiFetch_not_ok_json [of r v "Some d" ns]
    by (simp add: detail_or_default_def)
next
  assume "\<not> resp_ok r \<and> resp_json r = None \<and> statusText r \<noteq> []"
  then show "apiFetch ns r = Inl (Error (statusText r))"
    using apiFetch_not_ok_unparseable [of r ns] by simp
next
  assume "\<not> resp_ok r \<and> resp_json r = None \<and> statusText r = []"
  then show "apiFetch ns r = Inl (Error ''API request failed'')"
    using apiFetch_not_ok_unparseable [of r ns] by simp
next
  assume "resp_ok r \<and> resp_status r = 204"
  then show "apiFetch ns r = Inr ReturnsUndefined" by (simp add: apiFetch_def)
next
  fix v
  assume "resp_ok r \<and> resp_status r \<noteq> 204 \<and> resp_json r = Some v"
  then show "apiFetch ns r = Inr (ReturnsJson v)" by (simp add: apiFetch_def)
next
  assume "resp_ok r \<and> resp_status r \<noteq> 204 \<and> resp_json r = None"
  then show "apiFetch ns r = Inl JsonRejection" by (simp add: apiFetch_def)
qed

text \<open>
  The theorem at eight responses: a 404 with a \<open>detail\<close>, a 404 whose body has no
  \<open>detail\<close>, a 400 whose \<open>detail\<close> is the empty string, a 502 with an unparseable body
  with and without a \<open>statusText\<close>, a 204, and a 200 with and without a parseable body.
\<close>

theorem apiFetch_outcomes_witness:
  "apiFetch (\<lambda>n. ''0'') \<lparr>resp_ok = False, resp_status = 404, statusText = ''Not Found'', resp_json = Some (JObj [(''detail'', JStr ''Contract not found'')])\<rparr>
     = Inl (Error ''Contract not found'')
   \<and> apiFetch (\<lambda>n. ''0'') \<lparr>resp_ok = False, resp_status = 404, statusText = ''Not Found'', resp_json = Some (JObj [(''message'', JStr ''no such contract'')])\<rparr>
     = Inl (Error ''API request failed'')
   \<and> apiFetch (\<lambda>n. ''0'') \<lparr>resp_ok = False, resp_status = 400, statusText = ''Bad Request'', resp_json = Some (JObj [(''detail'', JStr [])])\<rparr>
     = Inl (Error ''API request failed'')
   \<and> apiFetch (\<lambda>n. ''0'') \<lparr>resp_ok = False, resp_status = 502, statusText = ''Bad Gateway'', resp_json = None\<rparr>
     = Inl (Error ''Bad Gateway'')
   \<and> apiFetch (\<lambda>n. ''0'') \<lparr>resp_ok = False, resp_status = 502, statusText = [], resp_json = None\<rparr>
     = Inl (Error ''API request failed'')
   \<and> apiFetch (\<lambda>n. ''0'') \<lparr>resp_ok = True, resp_status = 204, statusText = ''No Content'', resp_json = None\<rparr>
     = Inr ReturnsUndefined
   \<and> apiFetch (\<lambda>n. ''0'') \<lparr>resp_ok = True, resp_status = 200, statusText = ''OK'', resp_json = Some (JArr [])\<rparr>
     = Inr (ReturnsJson (JArr []))
   \<and> apiFetch (\<lambda>n. ''0'') \<lparr>resp_ok = True, resp_status = 200, statusText = ''OK'', resp_json = None\<rparr>
     = Inl JsonRejection
   \<and> read_detail (JObj [(''detail'', JStr ''Contract not found'')]) = Inr (Some (JStr ''Contract not found''))
   \<and> read_detail (JObj [(''message'', JStr ''no such contract'')]) = Inr None
   \<and> read_detail (JObj [(''detail'', JStr [])]) = Inr (Some (JStr []))
   \<and> \<not> js_truthy (JStr [])"
proof -
  let ?ns = "(\<lambda>n. ''0'')"
  let ?r1 = "\<lparr>resp_ok = False, resp_status = 404, statusText = ''Not Found'', resp_json = Some (JObj [(''detail'', JStr ''Contract not found'')])\<rparr>"
  let ?r2 = "\<lparr>resp_ok = False, resp_status = 404, statusText = ''Not Found'', resp_json = Some (JObj [(''message'', JStr ''no such contract'')])\<rparr>"
  let ?r3 = "\<lparr>resp_ok = False, resp_status = 400, statusText = ''Bad Request'', resp_json = Some (JObj [(''detail'', JStr [])])\<rparr>"
  let ?r4 = "\<lparr>resp_ok = False, resp_status = 502, statusText = ''Bad Gateway'', resp_json = None\<rparr>"
  let ?r5 = "\<lparr>resp_ok = False, resp_status = 502, statusText = [], resp_json = None\<rparr>"
  let ?r6 = "\<lparr>resp_ok = True, resp_status = 204, statusText = ''No Content'', resp_json = None\<rparr>"
  let ?r7 = "\<lparr>resp_ok = True, resp_status = 200, statusText = ''OK'', resp_json = Some (JArr [])\<rparr>"
  note string_detail = apiFetch_outcomes [THEN conjunct2, THEN conjunct1, rule_format]
  note no_detail = apiFetch_outcomes [THEN conjunct2, THEN conjunct2, THEN conjunct1,
    rule_format]
  note falsy_detail = apiFetch_outcomes [THEN conjunct2, THEN conjunct2, THEN conjunct2,
    THEN conjunct1, rule_format]
  note status_text = apiFetch_outcomes [THEN conjunct2, THEN conjunct2, THEN conjunct2,
    THEN conjunct2, THEN conjunct1, rule_format]
  note no_status_text = apiFetch_outcomes [THEN conjunct2, THEN conjunct2, THEN conjunct2,
    THEN conjunct2, THEN conjunct2, THEN conjunct1, rule_format]
  note no_content = apiFetch_outcomes [THEN conjunct2, THEN conjunct2, THEN conjunct2,
    THEN conjunct2, THEN conjunct2, THEN conjunct2, THEN conjunct1, rule_format]
  note parsed = apiFetch_outcomes [THEN conjunct2, THEN conjunct2, THEN conjunct2,
    THEN conjunct2, THEN conjunct2, THEN conjunct2, THEN conjunct2, THEN conjunct1,
    rule_format]
  note unparseable = apiFetch_outcomes [THEN conjunct2, THEN conjunct2, THEN conjunct2,
    THEN conjunct2, THEN conjunct2, THEN conjunct2, THEN conjunct2, THEN conjunct2,
    rule_format]
  have d1: "read_detail (JObj [(''detail'', JStr ''Contract not found'')]) = Inr (Some (JStr ''Contract not found''))"
    by (simp add: own_property_def)
  have d2: "read_detail (JObj [(''message'', JStr ''no such contract'')]) = Inr None"
    by (simp add: own_property_def)
  have d3: "read_detail (JObj [(''detail'', JStr [])]) = Inr (Some (JStr []))"
    by (simp add: own_property_def)
  have c1: "apiFetch ?ns ?r1 = Inl (Error ''Contract not found'')"
    by (rule string_detail [of ?r1 "JObj [(''detail'', JStr ''Contract not found'')]"]) (use d1 in simp)
  have c2: "apiFetch ?ns ?r2 = Inl (Error ''API request failed'')"
    by (rule no_detail [of ?r2 "JObj [(''message'', JStr ''no such contract'')]"]) (use d2 in simp)
  have c3: "apiFetch ?ns ?r3 = Inl (Error ''API request failed'')"
    by (rule falsy_detail [of ?r3 "JObj [(''detail'', JStr [])]" "JStr []"]) (use d3 in simp)
  have c4: "apiFetch ?ns ?r4 = Inl (Error (statusText ?r4))"
    by (rule status_text [of ?r4]) simp
  have c5: "apiFetch ?ns ?r5 = Inl (Error ''API request failed'')"
    by (rule no_status_text [of ?r5]) simp
  have c6: "apiFetch ?ns ?r6 = Inr ReturnsUndefined"
    by (rule no_content [of ?r6]) simp
  have c7: "apiFetch ?ns ?r7 = Inr (ReturnsJson (JArr []))"
    by (rule parsed [of ?r7]) simp
  have c8: "apiFetch ?ns \<lparr>resp_ok = True, resp_status = 200, statusText = ''OK'', resp_json = None\<rparr> = Inl JsonRejection"
    by (rule unparseable [of "\<lparr>resp_ok = True, resp_status = 200, statusText = ''OK'', resp_json = None\<rparr>"]) simp
  from c4 have c4': "apiFetch ?ns ?r4 = Inl (Error ''Bad Gateway'')" by simp
  show ?thesis
    using c1 c2 c3 c4' c5 c6 c7 c8 d1 d2 d3 by simp
qed

text \<open>
  The stated behaviour is that of \<open>throw new Error(error.detail)\<close>: the error carries
  the body's \<open>detail\<close> (and has the empty message when there is none). It fails on the
  code where the parsed body has no truthy \<open>detail\<close>: a 404 whose body is
  \<open>{"message": "no such contract"}\<close> throws \<open>Error('API request failed')\<close>. The same
  message is thrown for an empty \<open>detail\<close>, and for an unparseable body with an empty
  \<open>statusText\<close>.
\<close>

theorem apiFetch_error_carries_detail_counterexample:
  "\<not> (\<forall>ns r v. \<not> resp_ok r \<and> resp_json r = Some v
         \<longrightarrow> (\<exists>d m. read_detail v = Inr d
                \<and> (case d of None \<Rightarrow> Inr [] | Some x \<Rightarrow> js_to_string ns x) = Inr m
                \<and> apiFetch ns r = Inl (Error m)))"
proof
  let ?ns = "(\<lambda>n. ''0'')"
  let ?v = "JObj [(''message'', JStr ''no such contract'')]"
  let ?r = "\<lparr>resp_ok = False, resp_status = 404, statusText = ''Not Found'', resp_json = Some (JObj [(''message'', JStr ''no such contract'')])\<rparr>"
  assume stated: "\<forall>ns r v. \<not> resp_ok r \<and> resp_json r = Some v
         \<longrightarrow> (\<exists>d m. read_detail v = Inr d
                \<and> (case d of None \<Rightarrow> Inr [] | Some x \<Rightarrow> js_to_string ns x) = Inr m
                \<and> apiFetch ns r = Inl (Error m))"
  have a: "read_detail ?v = Inr None"
    by (simp add: own_property_def)
  have b: "apiFetch ?ns ?r = Inl (Error ''API request failed'')"
    by (simp add: apiFetch_def own_property_def detail_or_default_def)
  have c: "\<not> resp_ok ?r \<and> resp_json ?r = Some ?v" by simp
  from stated c have "\<exists>d m. read_detail ?v = Inr d
      \<and> (case d of None \<Rightarrow> Inr [] | Some x \<Rightarrow> js_to_string ?ns x) = Inr m
      \<and> apiFetch ?ns ?r = Inl (Error m)"
    by blast
  then show False unfolding a b by auto
qed


section \<open>Theorems: Drift Detector\<close>

lemma greedy_match_fst_distinct:
  "distinct (map fst acc) \<Longrightarrow> distinct (map fst (greedy_match ps acc))"
  by (induction ps acc rule: greedy_match.induct) auto

lemma greedy_match_snd_distinct:
  "distinct (map snd acc) \<Longrightarrow> distinct (map snd (greedy_match ps acc))"
  by (induction ps acc rule: greedy_match.induct) auto

lemma greedy_match_subset:
  "set (greedy_match ps acc) \<subseteq> set ps \<union> set acc"
  by (induction ps acc rule: greedy_match.induct) auto

lemma candidates_in_range:
  "(i, j) \<in> set (candidates cfg from to) \<Longrightarrow> i < length from \<and> j < length to"
  by (auto simp: candidates_def)

lemma ranked_set: "set (ranked cfg from to) = set (candidates cfg from to)"
  by (simp add: ranked_def)

lemma unmatched_partition:
  assumes "distinct xs" and "set xs \<subseteq> {..<n}"
  shows "mset xs + mset (filter (\<lambda>i. i \<notin> set xs) [0..<n]) = mset [0..<n]"
proof -
  have "mset (filter (\<lambda>i. i \<in> set xs) [0..<n]) = mset xs"
  proof (rule set_eq_iff_mset_eq_distinct [THEN iffD1])
    show "distinct (filter (\<lambda>i. i \<in> set xs) [0..<n])" by simp
    show "distinct xs" by (rule assms(1))
    show "set (filter (\<lambda>i. i \<in> set xs) [0..<n]) = set xs" using assms(2) by auto
  qed
  moreover have "mset [0..<n] = mset (filter (\<lambda>i. i \<in> set xs) [0..<n])
      + mset (filter (\<lambda>i. \<not> i \<in> set xs) [0..<n])"
    by (simp only: mset_filter multiset_partition [symmetric])
  ultimately show ?thesis by simp
qed

lemma nth_image_mset: "image_mset (\<lambda>i. f (xs ! i)) (mset [0..<length xs]) = mset (map f xs)"
proof -
  have "map (\<lambda>i. f (xs ! i)) [0..<length xs] = map f xs"
    by (rule nth_equalityI) auto
  then have "mset (map (\<lambda>i. f (xs ! i)) [0..<length xs]) = mset (map f xs)" by simp
  then show ?thesis by (simp only: mset_map)
qed


lemma from_clause_matched:
  "List.map_filter from_clause (map (\<lambda>(i, j). matched_change cfg (from ! i) (to ! j)) m)
     = map (\<lambda>i. fst (from ! i)) (map fst m)"
  by (induction m) (auto simp: List.map_filter_def matched_change_def)

lemma to_clause_matched:
  "List.map_filter to_clause (map (\<lambda>(i, j). matched_change cfg (from ! i) (to ! j)) m)
     = map (\<lambda>j. fst (to ! j)) (map snd m)"
  by (induction m) (auto simp: List.map_filter_def matched_change_def)

lemma from_clause_removed:
  "List.map_filter from_clause (map (\<lambda>i. removed_change (from ! i)) is)
     = map (\<lambda>i. fst (from ! i)) is"
  by (induction "is") (auto simp: List.map_filter_def removed_change_def)

lemma to_clause_removed:
  "List.map_filter to_clause (map (\<lambda>i. removed_change (from ! i)) is) = []"
  by (induction "is") (auto simp: List.map_filter_def removed_change_def)

lemma from_clause_added:
  "List.map_filter from_clause (map (\<lambda>j. added_change (to ! j)) js) = []"
  by (induction js) (auto simp: List.map_filter_def added_change_def)

lemma to_clause_added:
  "List.map_filter to_clause (map (\<lambda>j. added_change (to ! j)) js)
     = map (\<lambda>j. fst (to ! j)) js"
  by (induction js) (auto simp: List.map_filter_def added_change_def)

lemma map_filter_append: "List.map_filter f (xs @ ys) = List.map_filter f xs @ List.map_filter f ys"
  by (simp add: List.map_filter_def)

lemma matching_properties:
  "distinct (map fst (greedy_match (ranked cfg from to) []))"
  "distinct (map snd (greedy_match (ranked cfg from to) []))"
  "set (map fst (greedy_match (ranked cfg from to) [])) \<subseteq> {..<length from}"
  "set (map snd (greedy_match (ranked cfg from to) [])) \<subseteq> {..<length to}"
proof -
  define m where "m = greedy_match (ranked cfg from to) []"
  show "distinct (map fst (greedy_match (ranked cfg from to) []))"
    by (rule greedy_match_fst_distinct) simp
  show "distinct (map snd (greedy_match (ranked cfg from to) []))"
    by (rule greedy_match_snd_distinct) simp
  have sub: "set m \<subseteq> set (candidates cfg from to)"
    unfolding m_def using greedy_match_subset [of "ranked cfg from to" "[]"]
    by (simp add: ranked_set)
  have "set (map fst m) \<subseteq> {..<length from}"
    using sub candidates_in_range [of _ _ cfg "from" "to"] by fastforce
  then show "set (map fst (greedy_match (ranked cfg from to) [])) \<subseteq> {..<length from}"
    by (simp only: m_def)
  have "set (map snd m) \<subseteq> {..<length to}"
    using sub candidates_in_range [of _ _ cfg "from" "to"] by fastforce
  then show "set (map snd (greedy_match (ranked cfg from to) [])) \<subseteq> {..<length to}"
    by (simp only: m_def)
qed

lemma detect_from_clauses:
  "mset (List.map_filter from_clause (detect cfg from to)) = mset (map fst from)"
proof -
  define m where "m = greedy_match (ranked cfg from to) []"
  have d: "distinct (map fst m)" and r: "set (map fst m) \<subseteq> {..<length from}"
    unfolding m_def by (rule matching_properties)+
  have "List.map_filter from_clause (detect cfg from to)
      = map (\<lambda>i. fst (from ! i)) (map fst m)
        @ map (\<lambda>i. fst (from ! i)) (filter (\<lambda>i. i \<notin> set (map fst m)) [0..<length from])"
    by (simp add: detect_def Let_def m_def [symmetric] map_filter_append from_clause_matched
        from_clause_removed from_clause_added del: map_map)
  then have "mset (List.map_filter from_clause (detect cfg from to))
      = image_mset (\<lambda>i. fst (from ! i))
          (mset (map fst m) + mset (filter (\<lambda>i. i \<notin> set (map fst m)) [0..<length from]))"
    by (simp del: map_map set_map)
  also have "\<dots> = image_mset (\<lambda>i. fst (from ! i)) (mset [0..<length from])"
    by (simp only: unmatched_partition [OF d r])
  also have "\<dots> = mset (map fst from)" by (rule nth_image_mset)
  finally show ?thesis .
qed

lemma detect_to_clauses:
  "mset (List.map_filter to_clause (detect cfg from to)) = mset (map fst to)"
proof -
  define m where "m = greedy_match (ranked cfg from to) []"
  have d: "distinct (map snd m)" and r: "set (map snd m) \<subseteq> {..<length to}"
    unfolding m_def by (rule matching_properties)+
  have "List.map_filter to_clause (detect cfg from to)
      = map (\<lambda>j. fst (to ! j)) (map snd m)
        @ map (\<lambda>j. fst (to ! j)) (filter (\<lambda>j. j \<notin> set (map snd m)) [0..<length to])"
    by (simp add: detect_def Let_def m_def [symmetric] map_filter_append to_clause_matched
        to_clause_removed to_clause_added del: map_map)
  then have "mset (List.map_filter to_clause (detect cfg from to))
      = image_mset (\<lambda>j. fst (to ! j))
          (mset (map snd m) + mset (filter (\<lambda>j. j \<notin> set (map snd m)) [0..<length to]))"
    by (simp del: map_map set_map)
  also have "\<dots> = image_mset (\<lambda>j. fst (to ! j)) (mset [0..<length to])"
    by (simp only: unmatched_partition [OF d r])
  also have "\<dots> = mset (map fst to)" by (rule nth_image_mset)
  finally show ?thesis .
qed

lemma detect_no_empty_change:
  "list_all (\<lambda>c. \<not> (from_clause c = None \<and> to_clause c = None)) (detect cfg from to)"
  by (auto simp: detect_def Let_def list_all_iff matched_change_def removed_change_def
      added_change_def)

text \<open>
  The detector on a small input: \<open>fees\<close> moved from position 1 to position 2 with the
  same text, the notice clause was reworded, and \<open>privacy\<close> is new.
\<close>

lemma detect_example:
  "map (\<lambda>c. (map_option clause_text (from_clause c), map_option clause_text (to_clause c),
              change_type c))
     (detect \<lparr>sim = (\<lambda>a b. 4 / 5), match_threshold = 3 / 10, modified_threshold = 7 / 10\<rparr>
        [(\<lparr>clause_number = 1, category = None, heading = None, clause_text = ''fees'',
            position_start = 0, position_end = 4\<rparr>,
          \<lparr>text_hash = ''h-fees'', simhash = [], keyword_weights = [(''fees'', 1)]\<rparr>),
         (\<lparr>clause_number = 2, category = None, heading = None, clause_text = ''notice 30 days'',
            position_start = 5, position_end = 19\<rparr>,
          \<lparr>text_hash = ''h-notice-30'', simhash = [], keyword_weights = [(''notice'', 1)]\<rparr>)]
        [(\<lparr>clause_number = 1, category = None, heading = None, clause_text = ''privacy'',
            position_start = 0, position_end = 7\<rparr>,
          \<lparr>text_hash = ''h-privacy'', simhash = [], keyword_weights = [(''privacy'', 1)]\<rparr>),
         (\<lparr>clause_number = 2, category = None, heading = None, clause_text = ''fees'',
            position_start = 8, position_end = 12\<rparr>,
          \<lparr>text_hash = ''h-fees'', simhash = [], keyword_weights = [(''fees'', 1)]\<rparr>),
         (\<lparr>clause_number = 3, category = None, heading = None, clause_text = ''notice 10 days'',
            position_start = 13, position_end = 27\<rparr>,
          \<lparr>text_hash = ''h-notice-10'', simhash = [], keyword_weights = [(''notice'', 1)]\<rparr>)])
   = [(Some ''fees'', Some ''fees'', Unchanged),
      (Some ''notice 30 days'', Some ''notice 10 days'', Modified),
      (None, Some ''privacy'', Added)]"
  by (simp add: detect_def ranked_def candidates_def is_candidate_def same_text_def
      pair_score_def disjoint_vocabulary_def number_distance_def classify_match_def
      matched_change_def removed_change_def added_change_def Let_def upt_rec [of 0]
      numeral_3_eq_3 numeral_2_eq_2)

text \<open>
  C1. For every pair of clause sequences \<open>from\<close> and \<open>to\<close>, of any lengths, the
  \<open>from\<close> clauses that the emitted changes refer to are, counted with multiplicity,
  exactly the clauses of \<open>from\<close>, and likewise for \<open>to\<close>: every clause appears in
  exactly one change, none is dropped and none is counted twice. No change is without a
  clause.
\<close>

theorem detect_covers_every_clause_once:
  "mset (List.map_filter from_clause (detect cfg from to)) = mset (map fst from)
   \<and> mset (List.map_filter to_clause (detect cfg from to)) = mset (map fst to)
   \<and> list_all (\<lambda>c. \<not> (from_clause c = None \<and> to_clause c = None)) (detect cfg from to)"
  using detect_from_clauses detect_to_clauses detect_no_empty_change by blast

lemma detect_empty_from: "detect cfg [] to = map added_change to"
proof -
  have "map (\<lambda>j. added_change (to ! j)) [0..<length to] = map added_change to"
    by (rule nth_equalityI) auto
  then show ?thesis
    by (simp add: detect_def ranked_def candidates_def)
qed

text \<open>
  C5. Comparing an empty \<open>from\<close> sequence against any \<open>to\<close> sequence gives one
  \<open>added\<close> change per clause of \<open>to\<close> and nothing else, and the Risk Classifier is
  applied to none of them: each change has no risk score, no risk level and no
  explanation, whatever the classifier is.
\<close>

theorem first_version_baseline:
  "compare_versions cfg classify [] to = map added_change to
   \<and> list_all (\<lambda>c. change_type c = Added \<and> from_clause c = None \<and> risk_score c = None
         \<and> change_risk_level c = None \<and> explanation c = None)
       (compare_versions cfg classify [] to)"
  by (simp add: compare_versions_def detect_empty_from list_all_iff added_change_def)

subsection \<open>Clauses with identical text\<close>











text \<open>
  With a similarity of 1.0 for two clauses whose text differs, the tie is broken by the
  distance of clause numbers, and a clause can be paired with the other clause although its
  identical counterpart is present: it is then reported as \<open>modified\<close>, and the
  counterpart as \<open>added\<close>.
\<close>

lemma similarity_one_example:
  "map (\<lambda>c. (map_option clause_number (from_clause c), map_option clause_number (to_clause c),
              change_type c, similarity_score c))
     (detect \<lparr>sim = (\<lambda>a b. 1), match_threshold = 3 / 10, modified_threshold = 7 / 10\<rparr>
        [(\<lparr>clause_number = 1, category = None, heading = None,
         clause_text = ''Fees are due.'', position_start = 0, position_end = 13\<rparr>,
      \<lparr>text_hash = ''h-fees-a'', simhash = [], keyword_weights = [(''fees'', 1)]\<rparr>)]
        [(\<lparr>clause_number = 1, category = None, heading = None,
         clause_text = ''FEES ARE DUE'', position_start = 0, position_end = 12\<rparr>,
      \<lparr>text_hash = ''h-fees-b'', simhash = [], keyword_weights = [(''fees'', 1)]\<rparr>),
     (\<lparr>clause_number = 2, category = None, heading = None,
         clause_text = ''Fees are due.'', position_start = 13, position_end = 26\<rparr>,
      \<lparr>text_hash = ''h-fees-a'', simhash = [], keyword_weights = [(''fees'', 1)]\<rparr>)])
   = [(Some 1, Some 1, Modified, 1), (None, Some 2, Added, 0)]"
  by (simp add: detect_def ranked_def candidates_def is_candidate_def same_text_def
      pair_score_def disjoint_vocabulary_def number_distance_def classify_match_def
      matched_change_def removed_change_def added_change_def Let_def upt_rec [of 0]
      numeral_2_eq_2)

end
